theory Spec2Isabelle
  imports Complex_Main "HOL-Library.Word" "HOL-Library.Sublist"
begin

section \<open>Slice-thickness measurement: the code of main.py\<close>

text \<open>
  Conventions of the embedding.
  \<^item> A Python exception is a value of \<open>error\<close>; a function that can raise returns
    \<open>error + 'a\<close> with \<open>Inl\<close> for the exception.
  \<^item> A grey-level sample is an unsigned byte (\<open>np.uint8\<close>), an \<open>8 word\<close>.
  \<^item> Python \<open>int\<close> is \<open>int\<close>.  Python \<open>float\<close> is modelled by exact rational
    arithmetic (\<open>rat\<close>): rounding, infinities and NaN are not represented.  With the
    threshold \<open>0.5\<close> that the program passes, \<open>half_max\<close> is a multiple of one half
    below 128 and the comparisons of the detector are exact in both readings.
  \<^item> Wall-clock time and the display, dialog and file side effects are not
    represented.  Of the display code, the reads of module names and the indexing
    of \<open>line_thicknesses\<close> in \<open>visualize_intensity_profile\<close> are, since they
    raise.
\<close>

datatype error =
    ValueError
  | IndexError
  | ZeroDivisionError
  | NameError
  | UnboundLocalError
  | EOFError

type_synonym pixel = "8 word"

definition pv :: "pixel \<Rightarrow> rat" where
  "pv x = of_nat (unat x)"

subsection \<open>calculate_thickness\<close>

text \<open>\<open>np.max\<close> of a one-dimensional array; the empty array raises \<open>ValueError\<close>.\<close>

fun np_max :: "pixel list \<Rightarrow> error + pixel" where
  "np_max [] = Inl ValueError"
| "np_max (x # xs) = Inr (fold max xs x)"

text \<open>
  The local variables of the scan: \<open>thickness\<close>, \<open>in_peak\<close> and \<open>start\<close>;
  \<open>start\<close> is unbound (\<open>None\<close>) until its first assignment.
\<close>

type_synonym ct_state = "int \<times> bool \<times> nat option"

text \<open>One iteration of the \<open>for i in range(len(intensity_profile))\<close> loop.\<close>

fun ct_step :: "rat \<Rightarrow> nat \<Rightarrow> pixel \<Rightarrow> ct_state \<Rightarrow> error + ct_state" where
  "ct_step half_max i x (thickness, in_peak, start) =
     (if half_max \<le> pv x \<and> \<not> in_peak then Inr (thickness, True, Some i)
      else if pv x < half_max \<and> in_peak then
        (case start of
           None \<Rightarrow> Inl UnboundLocalError
         | Some s \<Rightarrow> Inr (int i - int s, False, start))
      else Inr (thickness, in_peak, start))"

fun ct_loop :: "rat \<Rightarrow> pixel list \<Rightarrow> nat \<Rightarrow> ct_state \<Rightarrow> error + ct_state" where
  "ct_loop half_max [] i st = Inr st"
| "ct_loop half_max (x # xs) i st =
     (case ct_step half_max i x st of
        Inl e \<Rightarrow> Inl e
      | Inr st' \<Rightarrow> ct_loop half_max xs (Suc i) st')"

definition calculate_thickness :: "pixel list \<Rightarrow> rat \<Rightarrow> error + int" where
  "calculate_thickness intensity_profile threshold =
     (case np_max intensity_profile of
        Inl e \<Rightarrow> Inl e
      | Inr max_intensity \<Rightarrow>
          (let half_max = pv max_intensity * threshold in
           case ct_loop half_max intensity_profile 0 (0, False, None) of
             Inl e \<Rightarrow> Inl e
           | Inr (thickness, in_peak, start) \<Rightarrow> Inr thickness))"


subsection \<open>Python primitives\<close>

text \<open>\<open>int(x)\<close> of a float truncates towards zero.\<close>

definition py_int :: "rat \<Rightarrow> int" where
  "py_int q = (if 0 \<le> q then \<lfloor>q\<rfloor> else \<lceil>q\<rceil>)"

text \<open>True division \<open>a / b\<close>; a zero divisor raises.\<close>

definition py_div :: "rat \<Rightarrow> rat \<Rightarrow> error + rat" where
  "py_div a b = (if b = 0 then Inl ZeroDivisionError else Inr (a / b))"

text \<open>\<open>range(0, stop, step)\<close>; \<open>range(stop)\<close> is \<open>range(0, stop, 1)\<close>.\<close>

definition range_len :: "int \<Rightarrow> int \<Rightarrow> nat" where
  "range_len stop step =
     (if 0 < step then nat ((stop + step - 1) div step)
      else nat ((- stop - step - 1) div (- step)))"

definition py_range :: "int \<Rightarrow> int \<Rightarrow> error + int list" where
  "py_range stop step =
     (if step = 0 then Inl ValueError
      else Inr (map (\<lambda>k. int k * step) [0..<range_len stop step]))"

text \<open>A \<open>for\<close> loop whose body updates the loop state or raises.\<close>

fun for_loop :: "('a \<Rightarrow> 's \<Rightarrow> error + 's) \<Rightarrow> 'a list \<Rightarrow> 's \<Rightarrow> error + 's" where
  "for_loop body [] st = Inr st"
| "for_loop body (x # xs) st =
     (case body x st of
        Inl e \<Rightarrow> Inl e
      | Inr st' \<Rightarrow> for_loop body xs st')"

subsection \<open>Frames and the line sampler\<close>

text \<open>
  A single-channel frame: a \<open>height \<times> width\<close> array of bytes, indexed by
  (row, column), row 0 at the top.
\<close>

record gray_frame =
  f_height :: nat
  f_width :: nat
  f_px :: "nat \<Rightarrow> nat \<Rightarrow> pixel"

text \<open>The stop position of the slice \<open>[:k]\<close> on an axis of length \<open>n\<close>.\<close>

definition slice_stop :: "int \<Rightarrow> nat \<Rightarrow> nat" where
  "slice_stop k n = (if 0 \<le> k then min (nat k) n else nat (int n + k))"

text \<open>\<open>frame[:k, :] = 0\<close>\<close>

definition zero_top :: "gray_frame \<Rightarrow> int \<Rightarrow> gray_frame" where
  "zero_top frame k =
     frame\<lparr>f_px := (\<lambda>r c. if r < slice_stop k (f_height frame) then 0 else f_px frame r c)\<rparr>"

text \<open>
  \<open>frame[:, x].copy()\<close>: an index in \<open>[-width, 0)\<close> counts from the right edge, an
  index outside \<open>[-width, width)\<close> raises \<open>IndexError\<close>.
\<close>

definition np_column :: "gray_frame \<Rightarrow> int \<Rightarrow> error + pixel list" where
  "np_column frame x =
     (let w = int (f_width frame) in
      if 0 \<le> x \<and> x < w then Inr (map (\<lambda>r. f_px frame r (nat x)) [0..<f_height frame])
      else if - w \<le> x \<and> x < 0 then Inr (map (\<lambda>r. f_px frame r (nat (x + w))) [0..<f_height frame])
      else Inl IndexError)"

text \<open>The column that line \<open>i\<close> of \<open>num_lines\<close> asks for.\<close>

definition line_x :: "gray_frame \<Rightarrow> int \<Rightarrow> rat \<Rightarrow> int \<Rightarrow> int" where
  "line_x frame num_lines line_separation_percent i =
     (let width = int (f_width frame);
          line_separation = py_int (of_int width * line_separation_percent);
          middle_x = width div 2
      in middle_x + (i - num_lines div 2) * line_separation)"

definition extract_vertical_lines :: "gray_frame \<Rightarrow> int \<Rightarrow> rat \<Rightarrow> error + pixel list list" where
  "extract_vertical_lines frame num_lines line_separation_percent =
     (case py_range num_lines 1 of
        Inl e \<Rightarrow> Inl e
      | Inr idx \<Rightarrow>
          for_loop
            (\<lambda>i lines.
               case np_column frame (line_x frame num_lines line_separation_percent i) of
                 Inl e \<Rightarrow> Inl e
               | Inr line \<Rightarrow> Inr (lines @ [line]))
            idx [])"

subsection \<open>Module globals, the video source and the external library\<close>

text \<open>
  The names of module scope that the functions read.  A name that has not been
  assigned is \<open>None\<close>, and reading it raises \<open>NameError\<close>.
\<close>

record globals =
  g_frame_height :: "int option"
  g_enable_visualizations :: "bool option"
  g_use_exclusion_zone :: "bool option"
  g_max_depth :: "rat option"
  g_top_threshold_pixels :: "int option"

definition global :: "'a option \<Rightarrow> error + 'a" where
  "global v = (case v of None \<Rightarrow> Inl NameError | Some x \<Rightarrow> Inr x)"

text \<open>
  What \<open>cv2.VideoCapture\<close> exposes of a file: the properties read with \<open>get\<close> and
  the result of \<open>set(CAP_PROP_POS_FRAMES, n)\<close> followed by \<open>read()\<close>, \<open>None\<close> when
  the read does not succeed.  The colour frame type \<open>'f\<close> is left open.
\<close>

record 'f video =
  cap_frame_count :: int
  cap_frame_height :: int
  cap_frame_width :: int
  cap_read :: "int \<Rightarrow> 'f option"

text \<open>
  The two OpenCV functions that \<open>preprocess_frame\<close> calls are parameters of the
  model: the grey conversion, and the blur with its kernel size and sigma.
\<close>

record 'f cv2 =
  cvtColor_BGR2GRAY :: "'f \<Rightarrow> gray_frame"
  GaussianBlur :: "gray_frame \<Rightarrow> nat \<times> nat \<Rightarrow> rat \<Rightarrow> gray_frame"

text \<open>\<open>visualize_frame\<close> reads the flag and shows a window; the read is kept.\<close>

definition visualize_frame :: "globals \<Rightarrow> error + unit" where
  "visualize_frame g =
     (case global (g_enable_visualizations g) of Inl e \<Rightarrow> Inl e | Inr enabled \<Rightarrow> Inr ())"

definition preprocess_frame :: "globals \<Rightarrow> 'f cv2 \<Rightarrow> 'f \<Rightarrow> error + gray_frame" where
  "preprocess_frame g cv frame =
     (let gray = cvtColor_BGR2GRAY cv frame;
          blurred = GaussianBlur cv gray (1, 1) 0
      in case global (g_enable_visualizations g) of
           Inl e \<Rightarrow> Inl e
         | Inr enabled \<Rightarrow> Inr blurred)"

text \<open>
  \<open>visualize_intensity_profile\<close>: when the flag is set, the loop reads
  \<open>line_thicknesses[i]\<close> for every index of \<open>vertical_lines\<close>, and the depth marker
  then reads the module name \<open>max_depth\<close> and divides by it.
\<close>

definition visualize_intensity_profile ::
    "globals \<Rightarrow> pixel list list \<Rightarrow> int list \<Rightarrow> rat \<Rightarrow> error + unit" where
  "visualize_intensity_profile g vertical_lines line_thicknesses depth =
     (case global (g_enable_visualizations g) of
        Inl e \<Rightarrow> Inl e
      | Inr enabled \<Rightarrow>
          if enabled then
            (if length line_thicknesses < length vertical_lines then Inl IndexError
             else case global (g_max_depth g) of
                    Inl e \<Rightarrow> Inl e
                  | Inr max_depth \<Rightarrow>
                      (case py_div depth max_depth of Inl e \<Rightarrow> Inl e | Inr q \<Rightarrow> Inr ()))
          else Inr ())"

subsection \<open>analyze_video\<close>

text \<open>
  The prompt for the exclusion depth and its \<open>while\<close> loop: the answers of the user
  are a list of numbers, consumed until one lies in \<open>[0, height]\<close>; a closed input
  stream raises \<open>EOFError\<close>.
\<close>

fun prompt_exclusion_zone_depth :: "int \<Rightarrow> rat list \<Rightarrow> error + rat" where
  "prompt_exclusion_zone_depth height [] = Inl EOFError"
| "prompt_exclusion_zone_depth height (exclusion_zone_depth # answers) =
     (if exclusion_zone_depth < 0 \<or> exclusion_zone_depth > of_int height
      then prompt_exclusion_zone_depth height answers
      else Inr exclusion_zone_depth)"

text \<open>
  The \<open>if use_exclusion_zone: ... else: ...\<close> block.  It yields the value of
  \<open>top_threshold_pixels\<close> afterwards and that of \<open>total_pixels\<close>, which stays
  unbound (\<open>None\<close>) when the zone is enabled and the first frame cannot be read.
\<close>

definition exclusion_zone ::
    "globals \<Rightarrow> 'f video \<Rightarrow> rat list \<Rightarrow> int \<Rightarrow> error + (int \<times> int option)" where
  "exclusion_zone g video answers top_threshold_pixels =
     (let height = cap_frame_height video in
      case global (g_use_exclusion_zone g) of
        Inl e \<Rightarrow> Inl e
      | Inr use_exclusion_zone \<Rightarrow>
          if use_exclusion_zone then
            (case cap_read video 0 of
               None \<Rightarrow> Inr (top_threshold_pixels, None)
             | Some frame \<Rightarrow>
                 (case visualize_frame g of
                    Inl e \<Rightarrow> Inl e
                  | Inr u \<Rightarrow>
                      (case prompt_exclusion_zone_depth height answers of
                         Inl e \<Rightarrow> Inl e
                       | Inr exclusion_zone_depth \<Rightarrow>
                           (case global (g_frame_height g) of
                              Inl e \<Rightarrow> Inl e
                            | Inr frame_height \<Rightarrow>
                                Inr (py_int exclusion_zone_depth,
                                     Some (frame_height - py_int exclusion_zone_depth))))))
          else
            (case global (g_frame_height g) of
               Inl e \<Rightarrow> Inl e
             | Inr frame_height \<Rightarrow> Inr (top_threshold_pixels, Some frame_height)))"

text \<open>The inner loop over the sampled lines: only positive thicknesses are kept.\<close>

definition measure_lines :: "pixel list list \<Rightarrow> rat \<Rightarrow> error + int list" where
  "measure_lines vertical_lines threshold =
     for_loop
       (\<lambda>line line_thicknesses.
          case calculate_thickness line threshold of
            Inl e \<Rightarrow> Inl e
          | Inr thickness \<Rightarrow>
              Inr (if thickness > 0 then line_thicknesses @ [thickness] else line_thicknesses))
       vertical_lines []"

text \<open>
  The body of the loop over frame numbers.  The loop state is the pair of lists
  \<open>depths\<close> and \<open>thicknesses\<close>.
\<close>

definition analyze_frame ::
    "globals \<Rightarrow> 'f cv2 \<Rightarrow> 'f video \<Rightarrow> rat \<Rightarrow> int \<Rightarrow> rat \<Rightarrow> rat \<Rightarrow> int \<Rightarrow>
     int \<Rightarrow> rat list \<times> rat list \<Rightarrow> error + rat list \<times> rat list" where
  "analyze_frame g cv video depth_increment num_lines threshold line_separation_percent
       top_threshold_pixels frame_num st =
     (case cap_read video frame_num of
        None \<Rightarrow> Inr st
      | Some frame \<Rightarrow>
          (case preprocess_frame g cv frame of
             Inl e \<Rightarrow> Inl e
           | Inr preprocessed_frame \<Rightarrow>
               (case extract_vertical_lines (zero_top preprocessed_frame top_threshold_pixels)
                       num_lines line_separation_percent of
                  Inl e \<Rightarrow> Inl e
                | Inr vertical_lines \<Rightarrow>
                    (case measure_lines vertical_lines threshold of
                       Inl e \<Rightarrow> Inl e
                     | Inr line_thicknesses \<Rightarrow>
                         if line_thicknesses \<noteq> [] then
                           (let avg_thickness =
                                  of_int (sum_list line_thicknesses) / of_nat (length line_thicknesses);
                                depth = of_int frame_num * depth_increment
                            in case visualize_intensity_profile g vertical_lines line_thicknesses depth of
                                 Inl e \<Rightarrow> Inl e
                               | Inr u \<Rightarrow> Inr (fst st @ [depth], snd st @ [avg_thickness]))
                         else Inr st))))"

text \<open>
  \<open>analyze_video\<close> returns \<open>depths\<close>, \<open>thicknesses\<close> and \<open>total_pixels\<close>; the
  elapsed time that the code returns as well is not represented.
\<close>

definition analyze_video ::
    "globals \<Rightarrow> 'f cv2 \<Rightarrow> 'f video \<Rightarrow> rat list \<Rightarrow> int \<Rightarrow> rat \<Rightarrow> int \<Rightarrow> rat \<Rightarrow> rat \<Rightarrow> int \<Rightarrow>
     error + rat list \<times> rat list \<times> int" where
  "analyze_video g cv video answers frame_interval max_depth num_lines threshold
       line_separation_percent top_threshold_pixels =
     (let max_frame_num = cap_frame_count video in
      case exclusion_zone g video answers top_threshold_pixels of
        Inl e \<Rightarrow> Inl e
      | Inr (top_threshold, total_pixels) \<Rightarrow>
          (case py_div max_depth (of_int (cap_frame_count video)) of
             Inl e \<Rightarrow> Inl e
           | Inr depth_increment \<Rightarrow>
               (case py_range max_frame_num frame_interval of
                  Inl e \<Rightarrow> Inl e
                | Inr frame_nums \<Rightarrow>
                    (case for_loop
                            (analyze_frame g cv video depth_increment num_lines threshold
                               line_separation_percent top_threshold)
                            frame_nums ([], []) of
                       Inl e \<Rightarrow> Inl e
                     | Inr (depths, thicknesses) \<Rightarrow>
                         (case total_pixels of
                            None \<Rightarrow> Inl UnboundLocalError
                          | Some tp \<Rightarrow> Inr (depths, thicknesses, tp))))))"

subsection \<open>The module-level script\<close>

text \<open>The answers of the user to the prompts, already parsed.\<close>

record user_input =
  in_max_depth_cm :: rat
  in_frame_interval :: int
  in_desired_interval :: rat
  in_use_multiple_lines :: bool
  in_enable_visualizations :: bool
  in_use_exclusion_zone :: bool
  in_num_lines :: int
  in_exclusion_answers :: "rat list"

text \<open>What the script hands to the CSV writer, the plot and the log.\<close>

record run_output =
  out_depths :: "rat list"
  out_thicknesses :: "rat list"
  out_thicknesses_mm :: "rat list"
  out_total_pixels :: int
  out_pixel_to_mm_ratio :: rat

text \<open>
  Module scope after the prompts: \<open>frame_height\<close>, \<open>enable_visualizations\<close> and
  \<open>use_exclusion_zone\<close> are assigned; \<open>max_depth\<close> and \<open>top_threshold_pixels\<close>
  are assigned nowhere in the module.
\<close>

definition module_globals :: "'f video \<Rightarrow> user_input \<Rightarrow> globals" where
  "module_globals video inp =
     \<lparr>g_frame_height = Some (cap_frame_height video),
      g_enable_visualizations = Some (in_enable_visualizations inp),
      g_use_exclusion_zone = Some (in_use_exclusion_zone inp),
      g_max_depth = None,
      g_top_threshold_pixels = None\<rparr>"

definition main_program :: "'f cv2 \<Rightarrow> 'f video \<Rightarrow> user_input \<Rightarrow> error + run_output" where
  "main_program cv video inp =
     (let g = module_globals video inp;
          max_depth_mm = in_max_depth_cm inp * 10;
          num_lines = (if in_use_multiple_lines inp then in_num_lines inp else 1)
      in case global (g_use_exclusion_zone g) of
           Inl e \<Rightarrow> Inl e
         | Inr use_exclusion_zone \<Rightarrow>
             (case (if use_exclusion_zone then global (g_top_threshold_pixels g) else Inr 0) of
                Inl e \<Rightarrow> Inl e
              | Inr top_threshold_pixels \<Rightarrow>
                  (case analyze_video g cv video (in_exclusion_answers inp) (in_frame_interval inp)
                          max_depth_mm num_lines (1 / 2) (1 / 10) top_threshold_pixels of
                     Inl e \<Rightarrow> Inl e
                   | Inr (depths, thicknesses, total_pixels) \<Rightarrow>
                       (case py_div max_depth_mm (of_int total_pixels) of
                          Inl e \<Rightarrow> Inl e
                        | Inr pixel_to_mm_ratio \<Rightarrow>
                            Inr \<lparr>out_depths = depths,
                                 out_thicknesses = thicknesses,
                                 out_thicknesses_mm = map (\<lambda>thickness. thickness * pixel_to_mm_ratio) thicknesses,
                                 out_total_pixels = total_pixels,
                                 out_pixel_to_mm_ratio = pixel_to_mm_ratio\<rparr>))))"

subsection \<open>Notions used in the statements\<close>

text \<open>
  No crossing completes in a stretch of the profile: once a sample is at or above
  \<open>half_max\<close>, every later sample is too.
\<close>

fun no_crossing :: "rat \<Rightarrow> pixel list \<Rightarrow> bool" where
  "no_crossing half_max [] = True"
| "no_crossing half_max (x # xs) =
     (if half_max \<le> pv x then list_all (\<lambda>y. half_max \<le> pv y) xs else no_crossing half_max xs)"

text \<open>
  The invariant of the scan before index \<open>i\<close>: the candidate is not negative, and
  inside a peak \<open>start\<close> is bound to an earlier index.
\<close>

definition ct_inv :: "nat \<Rightarrow> ct_state \<Rightarrow> bool" where
  "ct_inv i st \<longleftrightarrow>
     (case st of (thickness, in_peak, start) \<Rightarrow>
        0 \<le> thickness \<and> (in_peak \<longrightarrow> (\<exists>s. start = Some s \<and> s < i)))"

text \<open>The identity on grey frames, standing for both library calls in examples.\<close>

definition cv_id :: "gray_frame cv2" where
  "cv_id = \<lparr>cvtColor_BGR2GRAY = (\<lambda>frame. frame), GaussianBlur = (\<lambda>gray ksize sigma. gray)\<rparr>"

text \<open>
  \<open>line_thicknesses\<close> is what the loop body computes for frame number \<open>f\<close>: the
  frame is read, preprocessed, its top rows zeroed, its lines sampled, and the
  positive ones among the thicknesses of the lines are kept, in order.
\<close>

definition frame_measurement ::
    "globals \<Rightarrow> 'f cv2 \<Rightarrow> 'f video \<Rightarrow> int \<Rightarrow> rat \<Rightarrow> rat \<Rightarrow> int \<Rightarrow> int \<Rightarrow> int list \<Rightarrow> bool" where
  "frame_measurement g cv video num_lines threshold line_separation_percent top_threshold_pixels
       f line_thicknesses \<longleftrightarrow>
     (\<exists>frame preprocessed_frame vertical_lines ths.
        cap_read video f = Some frame \<and>
        preprocess_frame g cv frame = Inr preprocessed_frame \<and>
        extract_vertical_lines (zero_top preprocessed_frame top_threshold_pixels)
          num_lines line_separation_percent = Inr vertical_lines \<and>
        list_all2 (\<lambda>line thickness. calculate_thickness line threshold = Inr thickness)
          vertical_lines ths \<and>
        line_thicknesses = filter (\<lambda>thickness. 0 < thickness) ths)"

subsection \<open>Example inputs\<close>

text \<open>A frame one row high and eleven columns wide whose sample in column \<open>c\<close> is \<open>c\<close>.\<close>

definition ramp_frame :: gray_frame where
  "ramp_frame = \<lparr>f_height = 1, f_width = 11, f_px = (\<lambda>r c. of_nat c)\<rparr>"

text \<open>A frame four rows high and one column wide: a pulse of width 2 in rows 1 and 2.\<close>

definition pulse_frame :: gray_frame where
  "pulse_frame =
     \<lparr>f_height = 4, f_width = 1, f_px = (\<lambda>r c. if r = 1 \<or> r = 2 then 200 else 0)\<rparr>"

text \<open>A video of four such frames.\<close>

definition pulse_video :: "gray_frame video" where
  "pulse_video =
     \<lparr>cap_frame_count = 4, cap_frame_height = 4, cap_frame_width = 1,
      cap_read = (\<lambda>n. if 0 \<le> n \<and> n < 4 then Some pulse_frame else None)\<rparr>"


text \<open>4 cm of depth, every second frame, one line, no display, no exclusion zone.\<close>

definition plain_input :: user_input where
  "plain_input =
     \<lparr>in_max_depth_cm = 4, in_frame_interval = 2, in_desired_interval = 1,
      in_use_multiple_lines = False, in_enable_visualizations = False,
      in_use_exclusion_zone = False, in_num_lines = 1, in_exclusion_answers = []\<rparr>"

text \<open>Module scope for a direct call of \<open>analyze_video\<close> with the exclusion zone enabled.\<close>

definition exclusion_globals :: globals where
  "exclusion_globals =
     \<lparr>g_frame_height = Some 4, g_enable_visualizations = Some False,
      g_use_exclusion_zone = Some True, g_max_depth = None, g_top_threshold_pixels = None\<rparr>"

section \<open>Properties of the thickness detector\<close>

lemma ct_loop_append:
  "ct_loop hm (xs @ ys) i st =
     (case ct_loop hm xs i st of
        Inl e \<Rightarrow> Inl e
      | Inr st' \<Rightarrow> ct_loop hm ys (i + length xs) st')"
  by (induction xs arbitrary: i st) (auto split: sum.splits)

lemma ct_loop_above:
  "\<forall>x\<in>set xs. hm \<le> pv x \<Longrightarrow>
   ct_loop hm xs i (th, True, Some s) = Inr (th, True, Some s)"
  by (induction xs arbitrary: i) auto

lemma ct_loop_enter:
  "xs \<noteq> [] \<Longrightarrow> \<forall>x\<in>set xs. hm \<le> pv x \<Longrightarrow>
   ct_loop hm xs i (th, False, st) = Inr (th, True, Some i)"
  by (cases xs) (auto simp: ct_loop_above)

lemma no_crossing_iff:
  "no_crossing hm xs \<longleftrightarrow>
     (\<forall>i j. i < j \<longrightarrow> j < length xs \<longrightarrow> hm \<le> pv (xs ! i) \<longrightarrow> hm \<le> pv (xs ! j))"
proof (induction xs)
  case Nil
  show ?case by simp
next
  case (Cons x xs)
  show ?case
  proof (cases "hm \<le> pv x")
    case True
    have "(\<forall>y\<in>set xs. hm \<le> pv y) \<longleftrightarrow>
          (\<forall>i j. i < j \<longrightarrow> j < length (x # xs) \<longrightarrow> hm \<le> pv ((x # xs) ! i) \<longrightarrow> hm \<le> pv ((x # xs) ! j))"
    proof
      assume a: "\<forall>y\<in>set xs. hm \<le> pv y"
      show "\<forall>i j. i < j \<longrightarrow> j < length (x # xs) \<longrightarrow> hm \<le> pv ((x # xs) ! i) \<longrightarrow> hm \<le> pv ((x # xs) ! j)"
      proof (intro allI impI)
        fix i j :: nat
        assume "i < j" "j < length (x # xs)"
        then obtain k where "j = Suc k" "k < length xs" by (cases j) auto
        with a show "hm \<le> pv ((x # xs) ! j)" by simp
      qed
    next
      assume b: "\<forall>i j. i < j \<longrightarrow> j < length (x # xs) \<longrightarrow> hm \<le> pv ((x # xs) ! i) \<longrightarrow> hm \<le> pv ((x # xs) ! j)"
      show "\<forall>y\<in>set xs. hm \<le> pv y"
      proof
        fix y assume "y \<in> set xs"
        then obtain k where k: "k < length xs" "xs ! k = y" by (auto simp: in_set_conv_nth)
        from b have "0 < Suc k \<longrightarrow> Suc k < length (x # xs) \<longrightarrow> hm \<le> pv ((x # xs) ! 0) \<longrightarrow> hm \<le> pv ((x # xs) ! Suc k)"
          by blast
        with k True show "hm \<le> pv y" by simp
      qed
    qed
    with True show ?thesis by (simp add: list_all_iff)
  next
    case False
    have "(\<forall>i j. i < j \<longrightarrow> j < length xs \<longrightarrow> hm \<le> pv (xs ! i) \<longrightarrow> hm \<le> pv (xs ! j)) \<longleftrightarrow>
          (\<forall>i j. i < j \<longrightarrow> j < length (x # xs) \<longrightarrow> hm \<le> pv ((x # xs) ! i) \<longrightarrow> hm \<le> pv ((x # xs) ! j))"
    proof
      assume a: "\<forall>i j. i < j \<longrightarrow> j < length xs \<longrightarrow> hm \<le> pv (xs ! i) \<longrightarrow> hm \<le> pv (xs ! j)"
      show "\<forall>i j. i < j \<longrightarrow> j < length (x # xs) \<longrightarrow> hm \<le> pv ((x # xs) ! i) \<longrightarrow> hm \<le> pv ((x # xs) ! j)"
      proof (intro allI impI)
        fix i j :: nat
        assume h: "i < j" "j < length (x # xs)" "hm \<le> pv ((x # xs) ! i)"
        from h(1,2) obtain k where k: "j = Suc k" "k < length xs" by (cases j) auto
        from h(3) False obtain l where l: "i = Suc l" by (cases i) auto
        from h k l a have "hm \<le> pv (xs ! k)" by auto
        with k show "hm \<le> pv ((x # xs) ! j)" by simp
      qed
    next
      assume b: "\<forall>i j. i < j \<longrightarrow> j < length (x # xs) \<longrightarrow> hm \<le> pv ((x # xs) ! i) \<longrightarrow> hm \<le> pv ((x # xs) ! j)"
      show "\<forall>i j. i < j \<longrightarrow> j < length xs \<longrightarrow> hm \<le> pv (xs ! i) \<longrightarrow> hm \<le> pv (xs ! j)"
      proof (intro allI impI)
        fix i j :: nat
        assume h: "i < j" "j < length xs" "hm \<le> pv (xs ! i)"
        from b have "Suc i < Suc j \<longrightarrow> Suc j < length (x # xs) \<longrightarrow> hm \<le> pv ((x # xs) ! Suc i) \<longrightarrow> hm \<le> pv ((x # xs) ! Suc j)"
          by blast
        with h show "hm \<le> pv (xs ! j)" by simp
      qed
    qed
    with False Cons.IH show ?thesis by simp
  qed
qed

lemma ct_loop_no_crossing:
  "no_crossing hm xs \<Longrightarrow> \<exists>ip st'. ct_loop hm xs i (th, False, st) = Inr (th, ip, st')"
proof (induction xs arbitrary: i st)
  case Nil
  then show ?case by auto
next
  case (Cons x xs)
  show ?case
  proof (cases "hm \<le> pv x")
    case True
    with Cons.prems have "\<forall>y\<in>set xs. hm \<le> pv y" by (simp add: list_all_iff)
    with True show ?thesis by (auto simp: ct_loop_above)
  next
    case False
    with Cons.prems have "no_crossing hm xs" by simp
    from Cons.IH[OF this, of "Suc i" st] False show ?thesis by simp
  qed
qed

lemma ct_inv_init: "ct_inv 0 (0, False, None)"
  by (simp add: ct_inv_def)

lemma ct_step_inv:
  "ct_inv i st \<Longrightarrow> \<exists>st'. ct_step hm i x st = Inr st' \<and> ct_inv (Suc i) st'"
  by (cases st) (auto simp: ct_inv_def)

lemma ct_loop_inv:
  "ct_inv i st \<Longrightarrow> \<exists>st'. ct_loop hm xs i st = Inr st' \<and> ct_inv (i + length xs) st'"
proof (induction xs arbitrary: i st)
  case Nil
  then show ?case by simp
next
  case (Cons x xs)
  from ct_step_inv[OF Cons.prems, of hm x] obtain st1 where
    s: "ct_step hm i x st = Inr st1" "ct_inv (Suc i) st1" by blast
  from Cons.IH[OF s(2)] s(1) show ?case by auto
qed

lemma ct_loop_last_below:
  "xs \<noteq> [] \<Longrightarrow> pv (last xs) < hm \<Longrightarrow> ct_inv i st \<Longrightarrow>
   \<exists>th s. ct_loop hm xs i st = Inr (th, False, s)"
proof (induction xs arbitrary: i st)
  case Nil
  then show ?case by simp
next
  case (Cons x xs)
  from ct_step_inv[OF Cons.prems(3), of hm x] obtain st1 where
    s: "ct_step hm i x st = Inr st1" "ct_inv (Suc i) st1" by blast
  show ?case
  proof (cases "xs = []")
    case True
    with Cons.prems s show ?thesis
      by (cases st) (auto simp: ct_inv_def split: if_splits)
  next
    case False
    with Cons.prems have "pv (last xs) < hm" by simp
    from Cons.IH[OF False this s(2)] s(1) show ?thesis by simp
  qed
qed

lemma ct_loop_pre:
  assumes "pre = [] \<or> pv (last pre) < hm"
  shows "\<exists>th s. ct_loop hm pre 0 (0, False, None) = Inr (th, False, s)"
proof (cases "pre = []")
  case True
  then show ?thesis by simp
next
  case False
  with assms have "pv (last pre) < hm" by simp
  from ct_loop_last_below[OF False this ct_inv_init] show ?thesis .
qed

lemma ct_loop_last_crossing:
  assumes pre: "pre = [] \<or> pv (last pre) < hm"
    and pulse: "pulse \<noteq> []" "\<forall>y\<in>set pulse. hm \<le> pv y"
    and x: "pv x < hm"
    and post: "no_crossing hm post"
  shows "\<exists>ip s. ct_loop hm (pre @ pulse @ [x] @ post) 0 (0, False, None)
                 = Inr (int (length pulse), ip, s)"
proof -
  from ct_loop_pre[OF pre] obtain th0 s0 where
    a: "ct_loop hm pre 0 (0, False, None) = Inr (th0, False, s0)" by blast
  have b: "ct_loop hm pulse (length pre) (th0, False, s0) = Inr (th0, True, Some (length pre))"
    using pulse by (rule ct_loop_enter)
  have c: "ct_loop hm [x] (length pre + length pulse) (th0, True, Some (length pre))
            = Inr (int (length pulse), False, Some (length pre))"
    using x by simp
  from ct_loop_no_crossing[OF post, of "length pre + length pulse + 1" "int (length pulse)" "Some (length pre)"]
  obtain ip s where
    d: "ct_loop hm post (length pre + length pulse + 1) (int (length pulse), False, Some (length pre))
          = Inr (int (length pulse), ip, s)" by blast
  have "ct_loop hm (pre @ pulse @ [x] @ post) 0 (0, False, None) = Inr (int (length pulse), ip, s)"
    using a b c d
    by (simp only: ct_loop_append sum.case add_0 length_Cons length_append list.size
        add.assoc One_nat_def add_Suc_right add_0_right)
  then show ?thesis by blast
qed

text \<open>
  C1. Whenever the profile ends with a completed crossing (a run \<open>pulse\<close> of
  samples at or above \<open>half_max\<close> that starts at index \<open>length pre\<close>, where the
  scan is outside a peak, and is left at index \<open>length pre + length pulse\<close> by the
  sample \<open>x\<close>) after which no crossing completes, the detector returns exit index
  minus entry index of that crossing, the width of the last pulse, whatever
  pulses \<open>pre\<close> contains.
\<close>

theorem calculate_thickness_last_crossing:
  assumes "intensity_profile = pre @ pulse @ [x] @ post"
    and "np_max intensity_profile = Inr max_intensity"
    and "half_max = pv max_intensity * threshold"
    and "pre = [] \<or> pv (last pre) < half_max"
    and "pulse \<noteq> []"
    and "\<forall>y\<in>set pulse. half_max \<le> pv y"
    and "pv x < half_max"
    and "no_crossing half_max post"
  shows "calculate_thickness intensity_profile threshold
           = Inr (int (length pre + length pulse) - int (length pre))"
proof -
  from ct_loop_last_crossing[OF assms(4) assms(5) assms(6) assms(7) assms(8)]
  obtain ip s where
    "ct_loop half_max (pre @ pulse @ [x] @ post) 0 (0, False, None) = Inr (int (length pulse), ip, s)"
    by blast
  with assms(1,2,3) show ?thesis
    by (simp add: calculate_thickness_def)
qed

theorem calculate_thickness_last_crossing_witness:
  "calculate_thickness [0, 200, 200, 200, 0, 200, 200, 0] (1 / 2) = Inr 2"
proof -
  have h1: "[0, 200, 200, 200, 0, 200, 200, 0] = [0, 200, 200, 200, 0] @ [200, 200] @ [0] @ ([] :: pixel list)"
    by simp
  have h2: "np_max [0, 200, 200, 200, 0, 200, 200, 0] = Inr 200" by simp
  have h3: "(100 :: rat) = pv 200 * (1 / 2)" by (simp add: pv_def)
  have h4: "[0, 200, 200, 200, 0] = [] \<or> pv (last [0, 200, 200, 200, 0]) < 100"
    by (simp add: pv_def)
  have h5: "[200, 200 :: pixel] \<noteq> []" by simp
  have h6: "\<forall>y\<in>set [200, 200]. 100 \<le> pv y" by (simp add: pv_def)
  have h7: "pv 0 < 100" by (simp add: pv_def)
  have h8: "no_crossing 100 []" by simp
  from calculate_thickness_last_crossing[OF h1 h2 h3 h4 h5 h6 h7 h8]
  show ?thesis by simp
qed

text \<open>
  C7. On a non-empty profile the detector returns a value, and the value is not
  negative; it is 0 when no crossing completes in the profile, which covers the
  profile that never reaches \<open>half_max\<close> and the one that reaches it and stays
  there to the end.
\<close>

theorem calculate_thickness_no_crossing:
  assumes "np_max intensity_profile = Inr max_intensity"
  shows "(\<exists>thickness. calculate_thickness intensity_profile threshold = Inr thickness \<and> 0 \<le> thickness) \<and>
         (no_crossing (pv max_intensity * threshold) intensity_profile \<longrightarrow>
            calculate_thickness intensity_profile threshold = Inr 0)"
proof
  from ct_loop_inv[OF ct_inv_init, of "pv max_intensity * threshold" intensity_profile]
  obtain st' where
    st: "ct_loop (pv max_intensity * threshold) intensity_profile 0 (0, False, None) = Inr st'"
        "ct_inv (0 + length intensity_profile) st'"
    by blast
  obtain th ip s where "st' = (th, ip, s)" by (cases st') auto
  with st assms
  show "\<exists>thickness. calculate_thickness intensity_profile threshold = Inr thickness \<and> 0 \<le> thickness"
    by (simp add: calculate_thickness_def ct_inv_def)
next
  show "no_crossing (pv max_intensity * threshold) intensity_profile \<longrightarrow>
          calculate_thickness intensity_profile threshold = Inr 0"
  proof
    assume "no_crossing (pv max_intensity * threshold) intensity_profile"
    from ct_loop_no_crossing[OF this, of 0 0 None] obtain ip s where
      "ct_loop (pv max_intensity * threshold) intensity_profile 0 (0, False, None) = Inr (0, ip, s)"
      by blast
    with assms show "calculate_thickness intensity_profile threshold = Inr 0"
      by (simp add: calculate_thickness_def)
  qed
qed

theorem calculate_thickness_no_crossing_witness:
  "calculate_thickness [0, 10, 10] (1 / 2) = Inr 0 \<and> calculate_thickness [10, 20] 2 = Inr 0"
proof -
  have a: "np_max [0, 10, 10] = Inr 10" by simp
  have b: "no_crossing (pv 10 * (1 / 2)) [0, 10, 10]" by (simp add: pv_def)
  have c: "np_max [10, 20] = Inr 20" by simp
  have d: "no_crossing (pv 20 * 2) [10, 20]" by (simp add: pv_def)
  from calculate_thickness_no_crossing[OF a, of "1 / 2"] b
       calculate_thickness_no_crossing[OF c, of 2] d
  show ?thesis by blast
qed


section \<open>Properties of the line sampler\<close>

lemma np_column_error: "np_column frame x = Inl e \<Longrightarrow> e = IndexError"
  by (auto simp: np_column_def Let_def split: if_splits)

lemma np_column_out_of_range:
  "x < - int (f_width frame) \<or> int (f_width frame) \<le> x \<Longrightarrow> np_column frame x = Inl IndexError"
  by (auto simp: np_column_def Let_def)

lemma for_loop_column_error:
  assumes "i \<in> set idx" and "np_column frame (X i) = Inl IndexError"
  shows "for_loop
           (\<lambda>i lines. case np_column frame (X i) of
                         Inl e \<Rightarrow> Inl e
                       | Inr line \<Rightarrow> Inr (lines @ [line]))
           idx st = Inl IndexError"
  using assms
proof (induction idx arbitrary: st)
  case Nil
  then show ?case by simp
next
  case (Cons k idx)
  show ?case
  proof (cases "np_column frame (X k)")
    case (Inl e)
    then have "e = IndexError" by (rule np_column_error)
    with Inl show ?thesis by simp
  next
    case (Inr line)
    with Cons.prems have "i \<in> set idx" by auto
    from Cons.IH[OF this Cons.prems(2)] Inr show ?thesis by simp
  qed
qed

lemma py_range_1: "py_range n 1 = Inr (map int [0..<nat n])"
  by (simp add: py_range_def range_len_def)

text \<open>
  C5, as the code has it. The sampler does not clamp. When the column computed
  for one of its lines is \<open>width\<close> or more, or below \<open>- width\<close>, the sampler
  fails with \<open>IndexError\<close> and returns no profile.
\<close>

theorem extract_vertical_lines_out_of_range:
  assumes "0 \<le> i" and "i < num_lines"
    and "line_x frame num_lines line_separation_percent i < - int (f_width frame) \<or>
         int (f_width frame) \<le> line_x frame num_lines line_separation_percent i"
  shows "extract_vertical_lines frame num_lines line_separation_percent = Inl IndexError"
proof -
  from assms(1,2) have "nat i < nat num_lines" and "int (nat i) = i" by auto
  then have "i \<in> int ` {0..<nat num_lines}" by (metis atLeastLessThan_iff image_eqI le0)
  then have mem: "i \<in> set (map int [0..<nat num_lines])" by simp
  from assms(3) have "np_column frame (line_x frame num_lines line_separation_percent i) = Inl IndexError"
    by (rule np_column_out_of_range)
  from for_loop_column_error[OF mem, of frame "line_x frame num_lines line_separation_percent", OF this]
  show ?thesis
    by (simp add: extract_vertical_lines_def py_range_1)
qed

theorem extract_vertical_lines_out_of_range_witness:
  "line_x ramp_frame 13 (1 / 10) 12 = 11 \<and> extract_vertical_lines ramp_frame 13 (1 / 10) = Inl IndexError"
proof -
  have x: "line_x ramp_frame 13 (1 / 10) 12 = 11" by code_simp
  have w: "int (f_width ramp_frame) = 11" by (simp add: ramp_frame_def)
  have "line_x ramp_frame 13 (1 / 10) 12 < - int (f_width ramp_frame) \<or>
        int (f_width ramp_frame) \<le> line_x ramp_frame 13 (1 / 10) 12"
    by (simp add: x w)
  from extract_vertical_lines_out_of_range[of 12 13 ramp_frame "1 / 10", OF _ _ this] x
  show ?thesis by simp
qed

text \<open>
  C5, as the claim states it, fails. With the separation of one tenth that the
  program passes, twelve lines on a frame eleven columns wide put line 0 at column
  \<open>-1\<close>. The sampler neither fails nor clamps to column 0: line 0 holds the
  samples of column 10, the last one.
\<close>

theorem extract_vertical_lines_negative_index_counterexample:
  "line_x ramp_frame 12 (1 / 10) 0 = - 1 \<and>
   extract_vertical_lines ramp_frame 12 (1 / 10)
     = Inr [[10], [0], [1], [2], [3], [4], [5], [6], [7], [8], [9], [10]]"
  by code_simp

section \<open>Properties of the exclusion zone and of the script\<close>

text \<open>
  C4, as the code has it. The validation loop accepts an exclusion depth equal to
  the frame height: the rows to zero are then all rows and the count of usable
  pixels is 0. No ratio comes out of dividing by that count: the division raises.
\<close>

theorem exclusion_zone_accepts_frame_height:
  assumes "0 \<le> cap_frame_height video"
    and "g_use_exclusion_zone g = Some True"
    and "g_enable_visualizations g = Some enabled"
    and "g_frame_height g = Some (cap_frame_height video)"
    and "cap_read video 0 = Some frame"
  shows "exclusion_zone g video (of_int (cap_frame_height video) # answers) top_threshold_pixels
           = Inr (cap_frame_height video, Some 0) \<and>
         py_div max_depth (of_int 0) = Inl ZeroDivisionError"
  using assms
  by (simp add: exclusion_zone_def global_def visualize_frame_def py_int_def py_div_def)

theorem exclusion_zone_accepts_frame_height_witness:
  "exclusion_zone exclusion_globals pulse_video [4] 0 = Inr (4, Some 0)"
proof -
  have h: "0 \<le> cap_frame_height pulse_video"
    "g_use_exclusion_zone exclusion_globals = Some True"
    "g_enable_visualizations exclusion_globals = Some False"
    "g_frame_height exclusion_globals = Some (cap_frame_height pulse_video)"
    "cap_read pulse_video 0 = Some pulse_frame"
    by (simp_all add: exclusion_globals_def pulse_video_def)
  from exclusion_zone_accepts_frame_height[OF h, of "[]" 0 40]
  show ?thesis by (simp add: pulse_video_def)
qed

text \<open>
  C4, as the claim states it, fails: on a video four rows high the answer 4 is
  accepted, and the analysis returns normally with 0 usable pixels.
\<close>

theorem exclusion_zone_full_frame_counterexample:
  "cap_frame_height pulse_video = 4 \<and>
   prompt_exclusion_zone_depth (cap_frame_height pulse_video) [4] = Inr 4 \<and>
   analyze_video exclusion_globals cv_id pulse_video [4] 2 40 1 (1 / 2) (1 / 10) 0 = Inr ([], [], 0)"
  by code_simp

text \<open>
  C9. When the user asks for an exclusion zone, evaluating the arguments of the
  module-level call of \<open>analyze_video\<close> reads \<open>top_threshold_pixels\<close>, which module
  scope does not bind: the script stops with \<open>NameError\<close>, whatever the video and
  the other answers are.
\<close>

theorem main_program_exclusion_NameError:
  assumes "in_use_exclusion_zone inp"
  shows "main_program cv video inp = Inl NameError"
  using assms
  by (simp add: main_program_def module_globals_def global_def)

theorem main_program_exclusion_NameError_witness:
  "main_program cv_id pulse_video (plain_input\<lparr>in_use_exclusion_zone := True\<rparr>) = Inl NameError"
proof -
  have "in_use_exclusion_zone (plain_input\<lparr>in_use_exclusion_zone := True\<rparr>)" by simp
  then show ?thesis by (rule main_program_exclusion_NameError)
qed




section \<open>Properties of the analysis loop\<close>

lemma measure_lines_loop:
  "for_loop
     (\<lambda>line line_thicknesses.
        case calculate_thickness line threshold of
          Inl e \<Rightarrow> Inl e
        | Inr thickness \<Rightarrow>
            Inr (if thickness > 0 then line_thicknesses @ [thickness] else line_thicknesses))
     vertical_lines acc = Inr r \<Longrightarrow>
   \<exists>ths. list_all2 (\<lambda>line thickness. calculate_thickness line threshold = Inr thickness)
           vertical_lines ths \<and>
         r = acc @ filter (\<lambda>thickness. 0 < thickness) ths"
proof (induction vertical_lines arbitrary: acc)
  case Nil
  then show ?case by simp
next
  case (Cons line ls)
  from Cons.prems obtain t where t: "calculate_thickness line threshold = Inr t"
    by (cases "calculate_thickness line threshold") auto
  with Cons.prems have
    "for_loop
       (\<lambda>line line_thicknesses.
          case calculate_thickness line threshold of
            Inl e \<Rightarrow> Inl e
          | Inr thickness \<Rightarrow>
              Inr (if thickness > 0 then line_thicknesses @ [thickness] else line_thicknesses))
       ls (if t > 0 then acc @ [t] else acc) = Inr r"
    by simp
  from Cons.IH[OF this] obtain ths where
    ths: "list_all2 (\<lambda>line thickness. calculate_thickness line threshold = Inr thickness) ls ths"
         "r = (if t > 0 then acc @ [t] else acc) @ filter (\<lambda>thickness. 0 < thickness) ths"
    by blast
  from t ths have
    "list_all2 (\<lambda>line thickness. calculate_thickness line threshold = Inr thickness) (line # ls) (t # ths) \<and>
     r = acc @ filter (\<lambda>thickness. 0 < thickness) (t # ths)"
    by simp
  then show ?case by blast
qed

lemma measure_lines_Inr:
  "measure_lines vertical_lines threshold = Inr r \<Longrightarrow>
   \<exists>ths. list_all2 (\<lambda>line thickness. calculate_thickness line threshold = Inr thickness)
           vertical_lines ths \<and>
         r = filter (\<lambda>thickness. 0 < thickness) ths"
  unfolding measure_lines_def by (drule measure_lines_loop) simp

text \<open>The mean that the loop body records for a list of thicknesses.\<close>

lemma mean_positive:
  assumes "lts \<noteq> []" and "\<forall>x\<in>set lts. (0::int) < x"
  shows "(0::rat) < of_int (sum_list lts) / of_nat (length lts)"
proof -
  from assms have "0 < sum_list lts"
    by (induction lts) (auto intro: add_pos_nonneg sum_list_nonneg less_imp_le)
  moreover from assms(1) have "0 < length lts" by simp
  ultimately show ?thesis by simp
qed

lemma frame_measurement_positive:
  "frame_measurement g cv video num_lines threshold sep top_px f lts \<Longrightarrow> \<forall>x\<in>set lts. 0 < x"
  by (auto simp: frame_measurement_def)

text \<open>One pass of the loop body leaves the series alone or appends one entry.\<close>

lemma analyze_frame_Inr:
  assumes "analyze_frame g cv video depth_increment num_lines threshold sep top_px f st = Inr st'"
  shows "st' = st \<or>
         (\<exists>lts. frame_measurement g cv video num_lines threshold sep top_px f lts \<and> lts \<noteq> [] \<and>
                st' = (fst st @ [of_int f * depth_increment],
                       snd st @ [of_int (sum_list lts) / of_nat (length lts)]))"
proof (cases "cap_read video f")
  case None
  with assms show ?thesis by (simp add: analyze_frame_def)
next
  case (Some frame)
  from assms Some obtain pre where pre: "preprocess_frame g cv frame = Inr pre"
    by (cases "preprocess_frame g cv frame") (auto simp: analyze_frame_def)
  from assms Some pre obtain vl where
    vl: "extract_vertical_lines (zero_top pre top_px) num_lines sep = Inr vl"
    by (cases "extract_vertical_lines (zero_top pre top_px) num_lines sep")
       (auto simp: analyze_frame_def)
  from assms Some pre vl obtain lts where lts: "measure_lines vl threshold = Inr lts"
    by (cases "measure_lines vl threshold") (auto simp: analyze_frame_def)
  from measure_lines_Inr[OF lts] obtain ths where
    ths: "list_all2 (\<lambda>line thickness. calculate_thickness line threshold = Inr thickness) vl ths"
         "lts = filter (\<lambda>thickness. 0 < thickness) ths"
    by blast
  from Some pre vl ths have fm: "frame_measurement g cv video num_lines threshold sep top_px f lts"
    unfolding frame_measurement_def by blast
  show ?thesis
  proof (cases "lts = []")
    case True
    with assms Some pre vl lts show ?thesis by (simp add: analyze_frame_def)
  next
    case False
    with assms Some pre vl lts have
      "st' = (fst st @ [of_int f * depth_increment],
              snd st @ [of_int (sum_list lts) / of_nat (length lts)])"
      by (auto simp: analyze_frame_def Let_def split: sum.splits)
    with fm False show ?thesis by blast
  qed
qed

text \<open>
  The whole loop: the entries appended are those of a subsequence of the frame
  numbers visited, in order, each with the measurement of its frame.
\<close>

lemma analyze_loop_Inr:
  "for_loop (analyze_frame g cv video depth_increment num_lines threshold sep top_px) fs st = Inr st' \<Longrightarrow>
   \<exists>es. subseq (map fst es) fs \<and>
        (\<forall>(f, lts)\<in>set es. frame_measurement g cv video num_lines threshold sep top_px f lts \<and> lts \<noteq> []) \<and>
        fst st' = fst st @ map (\<lambda>(f, lts). of_int f * depth_increment) es \<and>
        snd st' = snd st @ map (\<lambda>(f, lts). of_int (sum_list lts) / of_nat (length lts)) es"
proof (induction fs arbitrary: st)
  case Nil
  then have "st' = st" by simp
  then have "subseq (map fst []) [] \<and>
        (\<forall>(f, lts)\<in>set []. frame_measurement g cv video num_lines threshold sep top_px f lts \<and> lts \<noteq> []) \<and>
        fst st' = fst st @ map (\<lambda>(f, lts). of_int f * depth_increment) [] \<and>
        snd st' = snd st @ map (\<lambda>(f, lts). of_int (sum_list lts) / of_nat (length lts)) []"
    by simp
  then show ?case by blast
next
  case (Cons f fs)
  from Cons.prems obtain st1 where
    st1: "analyze_frame g cv video depth_increment num_lines threshold sep top_px f st = Inr st1"
    by (cases "analyze_frame g cv video depth_increment num_lines threshold sep top_px f st") auto
  with Cons.prems have
    "for_loop (analyze_frame g cv video depth_increment num_lines threshold sep top_px) fs st1 = Inr st'"
    by simp
  from Cons.IH[OF this] obtain es where es:
    "subseq (map fst es) fs"
    "\<forall>(f, lts)\<in>set es. frame_measurement g cv video num_lines threshold sep top_px f lts \<and> lts \<noteq> []"
    "fst st' = fst st1 @ map (\<lambda>(f, lts). of_int f * depth_increment) es"
    "snd st' = snd st1 @ map (\<lambda>(f, lts). of_int (sum_list lts) / of_nat (length lts)) es"
    by blast
  from analyze_frame_Inr[OF st1] show ?case
  proof
    assume "st1 = st"
    with es have
      "subseq (map fst es) (f # fs) \<and>
       (\<forall>(f, lts)\<in>set es. frame_measurement g cv video num_lines threshold sep top_px f lts \<and> lts \<noteq> []) \<and>
       fst st' = fst st @ map (\<lambda>(f, lts). of_int f * depth_increment) es \<and>
       snd st' = snd st @ map (\<lambda>(f, lts). of_int (sum_list lts) / of_nat (length lts)) es"
      by (simp add: list_emb_Cons)
    then show ?thesis by blast
  next
    assume "\<exists>lts. frame_measurement g cv video num_lines threshold sep top_px f lts \<and> lts \<noteq> [] \<and>
                st1 = (fst st @ [of_int f * depth_increment],
                       snd st @ [of_int (sum_list lts) / of_nat (length lts)])"
    then obtain lts where l:
      "frame_measurement g cv video num_lines threshold sep top_px f lts" "lts \<noteq> []"
      "st1 = (fst st @ [of_int f * depth_increment],
              snd st @ [of_int (sum_list lts) / of_nat (length lts)])"
      by blast
    with es have
      "subseq (map fst ((f, lts) # es)) (f # fs) \<and>
       (\<forall>(f, lts)\<in>set ((f, lts) # es). frame_measurement g cv video num_lines threshold sep top_px f lts \<and> lts \<noteq> []) \<and>
       fst st' = fst st @ map (\<lambda>(f, lts). of_int f * depth_increment) ((f, lts) # es) \<and>
       snd st' = snd st @ map (\<lambda>(f, lts). of_int (sum_list lts) / of_nat (length lts)) ((f, lts) # es)"
      by simp
    then show ?thesis by blast
  qed
qed

text \<open>What a returning call of \<open>analyze_video\<close> went through.\<close>

lemma analyze_video_Inr:
  assumes "analyze_video g cv video answers frame_interval max_depth num_lines threshold sep
             top_threshold_pixels = Inr (depths, thicknesses, total_pixels)"
  shows "\<exists>top_px sampled es.
           exclusion_zone g video answers top_threshold_pixels = Inr (top_px, Some total_pixels) \<and>
           cap_frame_count video \<noteq> 0 \<and>
           py_range (cap_frame_count video) frame_interval = Inr sampled \<and>
           subseq (map fst es) sampled \<and>
           (\<forall>(f, lts)\<in>set es. frame_measurement g cv video num_lines threshold sep top_px f lts \<and> lts \<noteq> []) \<and>
           depths = map (\<lambda>(f, lts). of_int f * (max_depth / of_int (cap_frame_count video))) es \<and>
           thicknesses = map (\<lambda>(f, lts). of_int (sum_list lts) / of_nat (length lts)) es"
proof -
  from assms obtain top_px tpo where
    ez: "exclusion_zone g video answers top_threshold_pixels = Inr (top_px, tpo)"
    by (cases "exclusion_zone g video answers top_threshold_pixels")
       (auto simp: analyze_video_def)
  from assms ez have nz: "cap_frame_count video \<noteq> 0"
    by (auto simp: analyze_video_def py_div_def split: if_splits)
  then have pd: "py_div max_depth (of_int (cap_frame_count video))
                   = Inr (max_depth / of_int (cap_frame_count video))"
    by (simp add: py_div_def)
  from assms ez pd obtain sampled where
    sampled: "py_range (cap_frame_count video) frame_interval = Inr sampled"
    by (cases "py_range (cap_frame_count video) frame_interval")
       (auto simp: analyze_video_def)
  from assms ez pd sampled obtain st' where
    loop: "for_loop (analyze_frame g cv video (max_depth / of_int (cap_frame_count video))
                       num_lines threshold sep top_px) sampled ([], []) = Inr st'"
    by (cases "for_loop (analyze_frame g cv video (max_depth / of_int (cap_frame_count video))
                       num_lines threshold sep top_px) sampled ([], [])")
       (auto simp: analyze_video_def)
  from assms ez pd sampled loop have res: "tpo = Some total_pixels" "st' = (depths, thicknesses)"
    by (auto simp: analyze_video_def split: prod.splits option.splits)
  from analyze_loop_Inr[OF loop] res(2) obtain es where
    "subseq (map fst es) sampled"
    "\<forall>(f, lts)\<in>set es. frame_measurement g cv video num_lines threshold sep top_px f lts \<and> lts \<noteq> []"
    "depths = map (\<lambda>(f, lts). of_int f * (max_depth / of_int (cap_frame_count video))) es"
    "thicknesses = map (\<lambda>(f, lts). of_int (sum_list lts) / of_nat (length lts)) es"
    by auto
  with ez res(1) nz sampled show ?thesis by blast
qed


lemma analyze_video_InrE:
  assumes "analyze_video g cv video answers frame_interval max_depth num_lines threshold sep
             top_threshold_pixels = Inr (depths, thicknesses, total_pixels)"
  obtains top_px sampled es where
    "exclusion_zone g video answers top_threshold_pixels = Inr (top_px, Some total_pixels)"
    and "cap_frame_count video \<noteq> 0"
    and "py_range (cap_frame_count video) frame_interval = Inr sampled"
    and "subseq (map fst es) sampled"
    and "\<forall>(f, lts)\<in>set es. frame_measurement g cv video num_lines threshold sep top_px f lts \<and> lts \<noteq> []"
    and "depths = map (\<lambda>(f, lts). of_int f * (max_depth / of_int (cap_frame_count video))) es"
    and "thicknesses = map (\<lambda>(f, lts). of_int (sum_list lts) / of_nat (length lts)) es"
  using analyze_video_Inr[OF assms] by (elim exE conjE) (rule that)

lemma range_len_nonpositive: "stop \<le> 0 \<Longrightarrow> 1 \<le> step \<Longrightarrow> range_len stop step = 0"
proof -
  assume a: "stop \<le> 0" "1 \<le> step"
  then have "stop + step - 1 < step" by simp
  then have "stop + step - 1 \<le> step - 1" by simp
  with a(2) have "(stop + step - 1) div step \<le> (step - 1) div step"
    by (intro zdiv_mono1) auto
  also from a(2) have "(step - 1) div step = 0" by (intro div_pos_pos_trivial) auto
  finally have "(stop + step - 1) div step \<le> 0" .
  with a show ?thesis by (simp add: range_len_def)
qed

lemma scaled_upt_sorted:
  assumes "1 \<le> (step::int)"
  shows "sorted (map (\<lambda>k. int k * step) [0..<n])"
proof -
  have "sorted_wrt (\<lambda>x y. int x * step \<le> int y * step) [0..<n]"
  proof (rule sorted_wrt_mono_rel[where P = "(\<le>)"])
    fix x y :: nat assume "x \<le> y"
    with assms show "int x * step \<le> int y * step" by (simp add: mult_right_mono)
  next
    show "sorted [0..<n]" by (rule sorted_upt)
  qed
  then show ?thesis by (simp only: sorted_map)
qed

lemma py_range_sorted:
  assumes "py_range stop step = Inr sampled" and "1 \<le> step"
  shows "sorted sampled \<and> (stop \<le> 0 \<longrightarrow> sampled = [])"
proof -
  from assms have s: "sampled = map (\<lambda>k. int k * step) [0..<range_len stop step]"
    by (simp add: py_range_def split: if_splits)
  from assms(2) have "sorted sampled" unfolding s by (rule scaled_upt_sorted)
  moreover have "stop \<le> 0 \<longrightarrow> sampled = []"
    using assms(2) by (simp add: s range_len_nonpositive)
  ultimately show ?thesis by (rule conjI)
qed

lemma subseq_sorted: "subseq xs ys \<Longrightarrow> sorted ys \<Longrightarrow> sorted (xs :: int list)"
  by (auto simp: subseq_conv_nths sorted_nths)

lemma depth_mono:
  assumes "0 \<le> (max_depth::rat)" and "0 < (c::int)" and "a \<le> (b::int)"
  shows "rat_of_int a * max_depth / of_int c \<le> rat_of_int b * max_depth / of_int c"
proof -
  from assms(1,3) have "rat_of_int a * max_depth \<le> rat_of_int b * max_depth"
    by (simp add: mult_right_mono)
  moreover from assms(2) have "0 \<le> rat_of_int c" by simp
  ultimately show ?thesis by (rule divide_right_mono)
qed

text \<open>
  C2. In the series that \<open>analyze_video\<close> returns, the depths are those of a
  subsequence \<open>fs\<close> of the sampled frame numbers, one per entry, and the depth
  recorded for frame number \<open>f\<close> is \<open>f * max_depth / frame_count\<close> with the frame
  count of the source as divisor. For a depth range that is not negative and a
  stride of at least 1 the depths are in non-decreasing order.
\<close>

theorem analyze_video_depths:
  assumes "analyze_video g cv video answers frame_interval max_depth num_lines threshold
             line_separation_percent top_threshold_pixels = Inr (depths, thicknesses, total_pixels)"
  shows "\<exists>sampled fs.
           py_range (cap_frame_count video) frame_interval = Inr sampled \<and>
           subseq fs sampled \<and>
           length fs = length thicknesses \<and>
           depths = map (\<lambda>f. of_int f * max_depth / of_int (cap_frame_count video)) fs \<and>
           (0 \<le> max_depth \<and> 1 \<le> frame_interval \<longrightarrow> sorted depths)"
proof -
  from assms obtain top_px sampled es where
    "exclusion_zone g video answers top_threshold_pixels = Inr (top_px, Some total_pixels)"
    and r: "cap_frame_count video \<noteq> 0"
    "py_range (cap_frame_count video) frame_interval = Inr sampled"
    "subseq (map fst es) sampled"
    and "\<forall>(f, lts)\<in>set es.
        frame_measurement g cv video num_lines threshold line_separation_percent top_px f lts \<and> lts \<noteq> []"
    and r': "depths = map (\<lambda>(f, lts). of_int f * (max_depth / of_int (cap_frame_count video))) es"
    "thicknesses = map (\<lambda>(f, lts). of_int (sum_list lts) / of_nat (length lts)) es"
    by (rule analyze_video_InrE)
  let ?d = "\<lambda>f. rat_of_int f * max_depth / of_int (cap_frame_count video)"
  have d: "depths = map ?d (map fst es)"
    by (simp add: r'(1) case_prod_beta comp_def)
  have l: "length (map fst es) = length thicknesses" by (simp add: r'(2))
  have srt: "sorted depths" if h: "0 \<le> max_depth" "1 \<le> frame_interval"
  proof (cases "0 < cap_frame_count video")
    case True
    from py_range_sorted[OF r(2) h(2)] have "sorted sampled" by (rule conjunct1)
    with r(3) have "sorted (map fst es)" by (rule subseq_sorted)
    then have "sorted_wrt (\<lambda>a b. ?d a \<le> ?d b) (map fst es)"
    proof (rule sorted_wrt_mono_rel[rotated])
      fix a b :: int assume "a \<le> b"
      with h(1) True show "?d a \<le> ?d b" by (rule depth_mono)
    qed
    then have "sorted (map ?d (map fst es))"
      by (simp only: sorted_map)
    then show ?thesis by (simp only: d)
  next
    case False
    with py_range_sorted[OF r(2) h(2)] have "sampled = []" by simp
    with r(3) have "subseq (map fst es) []" by simp
    then have "map fst es = []" by (rule list_emb_Nil2)
    then show ?thesis by (simp only: d list.map sorted0)
  qed
  have "0 \<le> max_depth \<and> 1 \<le> frame_interval \<longrightarrow> sorted depths"
    using srt by blast
  with r(2,3) l d show ?thesis by (intro exI conjI)
qed

theorem analyze_video_depths_witness:
  "analyze_video (module_globals pulse_video plain_input) cv_id pulse_video [] 2 40 1 (1 / 2) (1 / 10) 0
     = Inr ([0, 20], [2, 2], 4) \<and> sorted [0, 20 :: rat]"
proof -
  have h: "analyze_video (module_globals pulse_video plain_input) cv_id pulse_video [] 2 40 1
             (1 / 2) (1 / 10) 0 = Inr ([0, 20], [2, 2], 4)"
    by code_simp
  from analyze_video_depths[OF h] obtain sampled fs where
    "(0 :: rat) \<le> 40 \<and> (1 :: int) \<le> 2 \<longrightarrow> sorted [0, 20 :: rat]"
    by blast
  then have "sorted [0, 20 :: rat]" by simp
  with h show ?thesis by (rule conjI)
qed

text \<open>
  C6. The series that \<open>analyze_video\<close> returns has no more entries than there are
  sampled frame numbers, and as many depths as thicknesses. Every entry belongs to
  a sampled frame number \<open>f\<close>: its thickness is the arithmetic mean of the positive
  per-line thicknesses of that frame, of which there is at least one, its depth is
  the one of \<open>f\<close>, and so its thickness is positive.
\<close>

theorem analyze_video_series:
  assumes "analyze_video g cv video answers frame_interval max_depth num_lines threshold
             line_separation_percent top_threshold_pixels = Inr (depths, thicknesses, total_pixels)"
  shows "\<exists>top_px sampled.
           exclusion_zone g video answers top_threshold_pixels = Inr (top_px, Some total_pixels) \<and>
           py_range (cap_frame_count video) frame_interval = Inr sampled \<and>
           length thicknesses \<le> length sampled \<and>
           length depths = length thicknesses \<and>
           (\<forall>k<length thicknesses.
              0 < thicknesses ! k \<and>
              (\<exists>f\<in>set sampled. \<exists>lts.
                 frame_measurement g cv video num_lines threshold line_separation_percent top_px f lts \<and>
                 lts \<noteq> [] \<and> (\<forall>x\<in>set lts. 0 < x) \<and>
                 thicknesses ! k = of_int (sum_list lts) / of_nat (length lts) \<and>
                 depths ! k = of_int f * (max_depth / of_int (cap_frame_count video))))"
proof -
  from assms obtain top_px sampled es where
    r1: "exclusion_zone g video answers top_threshold_pixels = Inr (top_px, Some total_pixels)"
    and "cap_frame_count video \<noteq> 0"
    and r2: "py_range (cap_frame_count video) frame_interval = Inr sampled"
    and r3: "subseq (map fst es) sampled"
    and r4: "\<forall>(f, lts)\<in>set es.
        frame_measurement g cv video num_lines threshold line_separation_percent top_px f lts \<and> lts \<noteq> []"
    and r5: "depths = map (\<lambda>(f, lts). of_int f * (max_depth / of_int (cap_frame_count video))) es"
    and r6: "thicknesses = map (\<lambda>(f, lts). of_int (sum_list lts) / of_nat (length lts)) es"
    by (rule analyze_video_InrE)
  from r3 have "length (map fst es) \<le> length sampled" by (rule list_emb_length)
  then have len: "length thicknesses \<le> length sampled" by (simp add: r6)
  have len2: "length depths = length thicknesses" by (simp add: r5 r6)
  have entry: "0 < thicknesses ! k \<and>
              (\<exists>f\<in>set sampled. \<exists>lts.
                 frame_measurement g cv video num_lines threshold line_separation_percent top_px f lts \<and>
                 lts \<noteq> [] \<and> (\<forall>x\<in>set lts. 0 < x) \<and>
                 thicknesses ! k = of_int (sum_list lts) / of_nat (length lts) \<and>
                 depths ! k = of_int f * (max_depth / of_int (cap_frame_count video)))"
    if k: "k < length thicknesses" for k
  proof -
    from k have ke: "k < length es" by (simp add: r6)
    obtain f lts where e: "es ! k = (f, lts)" by (cases "es ! k") auto
    from ke e have mem: "(f, lts) \<in> set es" by (metis nth_mem)
    with r4 have fm:
      "frame_measurement g cv video num_lines threshold line_separation_percent top_px f lts"
      "lts \<noteq> []" by auto
    from fm(1) have pos: "\<forall>x\<in>set lts. 0 < x" by (rule frame_measurement_positive)
    from mem have "f \<in> set (map fst es)" by force
    with r3 obtain f' where "f' \<in> set sampled" "f = f'" by (rule list_emb_set)
    then have fs: "f \<in> set sampled" by simp
    from ke e have t: "thicknesses ! k = of_int (sum_list lts) / of_nat (length lts)"
      and d: "depths ! k = of_int f * (max_depth / of_int (cap_frame_count video))"
      by (simp_all add: r5 r6)
    from mean_positive[OF fm(2) pos] t have p: "0 < thicknesses ! k" by simp
    have "frame_measurement g cv video num_lines threshold line_separation_percent top_px f lts \<and>
          lts \<noteq> [] \<and> (\<forall>x\<in>set lts. 0 < x) \<and>
          thicknesses ! k = of_int (sum_list lts) / of_nat (length lts) \<and>
          depths ! k = of_int f * (max_depth / of_int (cap_frame_count video))"
      using fm pos t d by (intro conjI)
    then have "\<exists>lts.
          frame_measurement g cv video num_lines threshold line_separation_percent top_px f lts \<and>
          lts \<noteq> [] \<and> (\<forall>x\<in>set lts. 0 < x) \<and>
          thicknesses ! k = of_int (sum_list lts) / of_nat (length lts) \<and>
          depths ! k = of_int f * (max_depth / of_int (cap_frame_count video))"
      by (rule exI)
    with fs p show ?thesis by (intro conjI bexI)
  qed
  show ?thesis
  proof (intro exI conjI allI impI)
    show "exclusion_zone g video answers top_threshold_pixels = Inr (top_px, Some total_pixels)"
      by (rule r1)
    show "py_range (cap_frame_count video) frame_interval = Inr sampled" by (rule r2)
    show "length thicknesses \<le> length sampled" by (rule len)
    show "length depths = length thicknesses" by (rule len2)
  next
    fix k assume k: "k < length thicknesses"
    from entry[OF k] show "0 < thicknesses ! k" by (rule conjunct1)
    from entry[OF k] show "\<exists>f\<in>set sampled. \<exists>lts.
          frame_measurement g cv video num_lines threshold line_separation_percent top_px f lts \<and>
          lts \<noteq> [] \<and> (\<forall>x\<in>set lts. 0 < x) \<and>
          thicknesses ! k = of_int (sum_list lts) / of_nat (length lts) \<and>
          depths ! k = of_int f * (max_depth / of_int (cap_frame_count video))"
      by (rule conjunct2)
  qed
qed

theorem analyze_video_series_witness:
  "analyze_video (module_globals pulse_video plain_input) cv_id pulse_video [] 2 40 2 (1 / 2) (1 / 10) 0
     = Inr ([0, 20], [2, 2], 4) \<and> 0 < [2, 2 :: rat] ! 1"
proof -
  have h: "analyze_video (module_globals pulse_video plain_input) cv_id pulse_video [] 2 40 2
             (1 / 2) (1 / 10) 0 = Inr ([0, 20], [2, 2], 4)"
    by code_simp
  from analyze_video_series[OF h] obtain top_px sampled where
    "\<forall>k<length [2, 2 :: rat].
        0 < [2, 2 :: rat] ! k \<and>
        (\<exists>f\<in>set sampled. \<exists>lts.
           frame_measurement (module_globals pulse_video plain_input) cv_id pulse_video 2 (1 / 2)
             (1 / 10) top_px f lts \<and>
           lts \<noteq> [] \<and> (\<forall>x\<in>set lts. 0 < x) \<and>
           [2, 2 :: rat] ! k = of_int (sum_list lts) / of_nat (length lts) \<and>
           [0, 20 :: rat] ! k = of_int f * (40 / of_int (cap_frame_count pulse_video)))"
    by blast
  then have "\<forall>k<length [2, 2 :: rat]. 0 < [2, 2 :: rat] ! k" by blast
  then have "0 < [2, 2 :: rat] ! 1" by simp
  with h show ?thesis by (rule conjI)
qed

text \<open>
  C3. A run of the script that reaches its output computed the ratio once, as
  \<open>max_depth_mm / total_pixels\<close>, with \<open>total_pixels\<close> the frame height (such a run
  has no exclusion zone), the ratio times \<open>total_pixels\<close> is \<open>max_depth_mm\<close>, and
  every thickness in millimetres is the thickness in pixels times that ratio. For
  \<open>analyze_video\<close> itself, \<open>total_pixels\<close> is the frame height without exclusion
  zone and the frame height minus \<open>top_threshold_pixels\<close>, the accepted depth as
  an integer, with it; a ratio obtained from it gives back \<open>max_depth\<close>.
\<close>

theorem main_program_calibration:
  shows "(main_program cv video inp = Inr out \<longrightarrow>
            \<not> in_use_exclusion_zone inp \<and>
            out_total_pixels out = cap_frame_height video \<and>
            out_pixel_to_mm_ratio out = in_max_depth_cm inp * 10 / of_int (out_total_pixels out) \<and>
            out_pixel_to_mm_ratio out * of_int (out_total_pixels out) = in_max_depth_cm inp * 10 \<and>
            out_thicknesses_mm out
              = map (\<lambda>thickness. thickness * out_pixel_to_mm_ratio out) (out_thicknesses out)) \<and>
         (analyze_video g cv video answers frame_interval max_depth num_lines threshold
             line_separation_percent top_threshold_pixels = Inr (depths, thicknesses, total_pixels) \<longrightarrow>
            (\<exists>use_exclusion_zone frame_height.
               g_use_exclusion_zone g = Some use_exclusion_zone \<and>
               g_frame_height g = Some frame_height \<and>
               (if use_exclusion_zone
                then \<exists>exclusion_zone_depth.
                       prompt_exclusion_zone_depth (cap_frame_height video) answers
                         = Inr exclusion_zone_depth \<and>
                       total_pixels = frame_height - py_int exclusion_zone_depth
                else total_pixels = frame_height)) \<and>
            (\<forall>ratio. py_div max_depth (of_int total_pixels) = Inr ratio \<longrightarrow>
               ratio * of_int total_pixels = max_depth))"
proof (intro conjI impI)
  assume m: "main_program cv video inp = Inr out"
  show "\<not> in_use_exclusion_zone inp"
  proof
    assume "in_use_exclusion_zone inp"
    then have "main_program cv video inp = Inl NameError"
      by (simp add: main_program_def module_globals_def global_def)
    with m show False by simp
  qed
  then have nx: "\<not> in_use_exclusion_zone inp" .
  let ?nl = "if in_use_multiple_lines inp then in_num_lines inp else 1"
  from m nx obtain ds ts tp where
    av: "analyze_video (module_globals video inp) cv video (in_exclusion_answers inp)
           (in_frame_interval inp) (in_max_depth_cm inp * 10) ?nl (1 / 2) (1 / 10) 0 = Inr (ds, ts, tp)"
    by (cases "analyze_video (module_globals video inp) cv video (in_exclusion_answers inp)
           (in_frame_interval inp) (in_max_depth_cm inp * 10) ?nl (1 / 2) (1 / 10) 0")
       (auto simp: main_program_def module_globals_def global_def Let_def)
  from av obtain top_px where
    "exclusion_zone (module_globals video inp) video (in_exclusion_answers inp) 0 = Inr (top_px, Some tp)"
    by (rule analyze_video_InrE)
  with nx have tp: "tp = cap_frame_height video"
    by (simp add: exclusion_zone_def module_globals_def global_def)
  from m nx av have nz: "tp \<noteq> 0"
    by (auto simp: main_program_def module_globals_def global_def Let_def py_div_def
        split: if_splits)
  from m nx av nz have out:
    "out = \<lparr>out_depths = ds, out_thicknesses = ts,
            out_thicknesses_mm = map (\<lambda>thickness. thickness * (in_max_depth_cm inp * 10 / of_int tp)) ts,
            out_total_pixels = tp,
            out_pixel_to_mm_ratio = in_max_depth_cm inp * 10 / of_int tp\<rparr>"
    by (simp add: main_program_def module_globals_def global_def Let_def py_div_def)
  show "out_total_pixels out = cap_frame_height video" by (simp add: out tp)
  show "out_pixel_to_mm_ratio out = in_max_depth_cm inp * 10 / of_int (out_total_pixels out)"
    by (simp add: out)
  show "out_pixel_to_mm_ratio out * of_int (out_total_pixels out) = in_max_depth_cm inp * 10"
    using nz by (simp add: out)
  show "out_thicknesses_mm out
          = map (\<lambda>thickness. thickness * out_pixel_to_mm_ratio out) (out_thicknesses out)"
    by (simp add: out)
next
  assume av: "analyze_video g cv video answers frame_interval max_depth num_lines threshold
             line_separation_percent top_threshold_pixels = Inr (depths, thicknesses, total_pixels)"
  from av obtain top_px where
    ez: "exclusion_zone g video answers top_threshold_pixels = Inr (top_px, Some total_pixels)"
    by (rule analyze_video_InrE)
  then show "\<exists>use_exclusion_zone frame_height.
               g_use_exclusion_zone g = Some use_exclusion_zone \<and>
               g_frame_height g = Some frame_height \<and>
               (if use_exclusion_zone
                then \<exists>exclusion_zone_depth.
                       prompt_exclusion_zone_depth (cap_frame_height video) answers
                         = Inr exclusion_zone_depth \<and>
                       total_pixels = frame_height - py_int exclusion_zone_depth
                else total_pixels = frame_height)"
    by (auto simp: exclusion_zone_def global_def Let_def
        split: option.splits if_splits sum.splits)
  show "\<forall>ratio. py_div max_depth (of_int total_pixels) = Inr ratio \<longrightarrow>
               ratio * of_int total_pixels = max_depth"
    by (auto simp: py_div_def split: if_splits)
qed

theorem main_program_calibration_witness:
  "main_program cv_id pulse_video plain_input
     = Inr \<lparr>out_depths = [0, 20], out_thicknesses = [2, 2], out_thicknesses_mm = [20, 20],
            out_total_pixels = 4, out_pixel_to_mm_ratio = 10\<rparr> \<and>
   analyze_video exclusion_globals cv_id pulse_video [5, 1] 2 40 1 (1 / 2) (1 / 10) 0
     = Inr ([0, 20], [2, 2], 3) \<and>
   (10 :: rat) * of_int 4 = in_max_depth_cm plain_input * 10"
proof -
  have a: "main_program cv_id pulse_video plain_input
     = Inr \<lparr>out_depths = [0, 20], out_thicknesses = [2, 2], out_thicknesses_mm = [20, 20],
            out_total_pixels = 4, out_pixel_to_mm_ratio = 10\<rparr>"
    by code_simp
  have b: "analyze_video exclusion_globals cv_id pulse_video [5, 1] 2 40 1 (1 / 2) (1 / 10) 0
     = Inr ([0, 20], [2, 2], 3)"
    by code_simp
  from main_program_calibration[of cv_id pulse_video plain_input
      "\<lparr>out_depths = [0, 20], out_thicknesses = [2, 2], out_thicknesses_mm = [20, 20],
            out_total_pixels = 4, out_pixel_to_mm_ratio = 10\<rparr>"] a
  have "(10 :: rat) * of_int 4 = in_max_depth_cm plain_input * 10" by simp
  with a b show ?thesis by blast
qed


end
